theory Spec2Isabelle
  imports Complex_Main "HOL-Library.Char_ord" "HOL-Library.List_Lexorder" "HOL-Library.AList"
begin

section \<open>Exceptions\<close>

text \<open>
  The exceptions that the functions of \<^verbatim>\<open>website.py\<close> can meet. A function that may raise
  returns \<open>py_error + 'a\<close>, with \<open>Inl\<close> for the exception.
  \<open>RequestException\<close> stands for whatever \<^verbatim>\<open>requests.get\<close> raises on a transport failure or
  a timeout, \<open>HTTPError\<close> for what \<^verbatim>\<open>raise_for_status\<close> raises, \<open>JSONDecodeError\<close> for
  what \<^verbatim>\<open>resp.json()\<close> raises on a body that is not JSON.
\<close>

datatype py_error =
    InvalidOperation
  | Overflow
  | TypeError
  | ValueError
  | AttributeError
  | RequestException
  | HTTPError
  | JSONDecodeError

section \<open>Strings\<close>

text \<open>
  A \<open>string\<close> is a list of 8-bit characters. The methods \<^verbatim>\<open>str.upper\<close> and
  \<^verbatim>\<open>str.strip\<close> are modelled on ASCII: letters a to z are the only ones with an upper case,
  and the white space is what \<^verbatim>\<open>str.isspace\<close> accepts below code 128.
\<close>

definition upper_char :: "char \<Rightarrow> char" where
  "upper_char c =
     (case map_of (zip ''abcdefghijklmnopqrstuvwxyz'' ''ABCDEFGHIJKLMNOPQRSTUVWXYZ'') c of
        None \<Rightarrow> c | Some u \<Rightarrow> u)"

definition lower_char :: "char \<Rightarrow> char" where
  "lower_char c =
     (case map_of (zip ''ABCDEFGHIJKLMNOPQRSTUVWXYZ'' ''abcdefghijklmnopqrstuvwxyz'') c of
        None \<Rightarrow> c | Some l \<Rightarrow> l)"

definition upper :: "string \<Rightarrow> string" where
  "upper s = map upper_char s"

definition lower :: "string \<Rightarrow> string" where
  "lower s = map lower_char s"

definition is_space :: "char \<Rightarrow> bool" where
  "is_space c = ((of_char c :: nat) \<in> {9, 10, 11, 12, 13, 28, 29, 30, 31, 32})"

definition strip :: "string \<Rightarrow> string" where
  "strip s = rev (dropWhile is_space (rev (dropWhile is_space s)))"

definition is_digit :: "char \<Rightarrow> bool" where
  "is_digit c = (c \<in> set ''0123456789'')"

definition digit_char :: "nat \<Rightarrow> char" where
  "digit_char d = ''0123456789'' ! d"

definition digit_val :: "char \<Rightarrow> nat" where
  "digit_val c = (of_char c :: nat) - 48"

text \<open>\<^verbatim>\<open>str(n)\<close> for a natural number, and \<^verbatim>\<open>int(s)\<close> for a string of digits.\<close>

fun digits_of_nat :: "nat \<Rightarrow> string" where
  "digits_of_nat n =
     (if n < 10 then [digit_char n] else digits_of_nat (n div 10) @ [digit_char (n mod 10)])"

declare digits_of_nat.simps [simp del]

definition nat_of_digits :: "string \<Rightarrow> nat" where
  "nat_of_digits ds = foldl (\<lambda>a c. 10 * a + digit_val c) 0 ds"

section \<open>Decimal numbers\<close>

text \<open>
  A value of Python's \<^verbatim>\<open>decimal.Decimal\<close>: a finite number with a sign (\<open>True\<close> is
  negative), a coefficient and an exponent, denoting \<open>\<plusminus> coefficient * 10 ^ exponent\<close>; an
  infinity; a quiet or a signalling NaN with its payload. The operations follow the
  arithmetic of the \<^verbatim>\<open>decimal\<close> module under the default context, which the program never
  changes: 28 digits of precision, rounding half to even, exponents between -999999 and
  999999, and the signals \<^verbatim>\<open>InvalidOperation\<close>, \<^verbatim>\<open>DivisionByZero\<close> and \<^verbatim>\<open>Overflow\<close> raised as
  exceptions.
\<close>

datatype decimal =
    Finite bool nat int
  | Infinite bool
  | QNaN bool nat
  | SNaN bool nat

definition prec :: nat where "prec = 28"
definition Emax :: int where "Emax = 999999"
definition Emin :: int where "Emin = - 999999"
definition Etiny :: int where "Etiny = Emin - int prec + 1"
definition Etop :: int where "Etop = Emax - int prec + 1"

fun dec_sign :: "decimal \<Rightarrow> bool" where
  "dec_sign (Finite s c e) = s"
| "dec_sign (Infinite s) = s"
| "dec_sign (QNaN s p) = s"
| "dec_sign (SNaN s p) = s"

fun is_nan :: "decimal \<Rightarrow> bool" where
  "is_nan (QNaN s p) = True"
| "is_nan (SNaN s p) = True"
| "is_nan d = False"

fun is_snan :: "decimal \<Rightarrow> bool" where
  "is_snan (SNaN s p) = True"
| "is_snan d = False"

fun is_infinite :: "decimal \<Rightarrow> bool" where
  "is_infinite (Infinite s) = True"
| "is_infinite d = False"

text \<open>The truth value of a decimal: \<^verbatim>\<open>not d\<close> holds of the finite zeros only.\<close>

fun is_zero :: "decimal \<Rightarrow> bool" where
  "is_zero (Finite s c e) = (c = 0)"
| "is_zero d = False"

definition ndigits :: "nat \<Rightarrow> nat" where
  "ndigits c = length (digits_of_nat c)"

subsection \<open>The constructor \<^verbatim>\<open>Decimal(str)\<close>\<close>

text \<open>
  The string is stripped of surrounding white space and of every underscore, and must
  then be an optional sign followed by a number (digits with at most one point and at least
  one digit, then an optional exponent), by \<^verbatim>\<open>Inf\<close> or \<^verbatim>\<open>Infinity\<close>, or by \<^verbatim>\<open>NaN\<close> or
  \<^verbatim>\<open>sNaN\<close> with optional payload digits; letters in any case. Anything else raises
  \<^verbatim>\<open>InvalidOperation\<close>. The conversion is exact.
\<close>

definition split_sign :: "string \<Rightarrow> bool \<times> string" where
  "split_sign s =
     (case s of
        [] \<Rightarrow> (False, s)
      | c # r \<Rightarrow> if c = CHR ''-'' then (True, r) else if c = CHR ''+'' then (False, r) else (False, s))"

definition parse_exponent :: "string \<Rightarrow> int option" where
  "parse_exponent x =
     (let (neg, ds) = split_sign x
      in if ds \<noteq> [] \<and> list_all is_digit ds
         then Some (if neg then - int (nat_of_digits ds) else int (nat_of_digits ds))
         else None)"

definition parse_number :: "bool \<Rightarrow> string \<Rightarrow> decimal option" where
  "parse_number neg s =
     (let m = takeWhile (\<lambda>c. lower_char c \<noteq> CHR ''e'') s;
          x = dropWhile (\<lambda>c. lower_char c \<noteq> CHR ''e'') s;
          ip = takeWhile (\<lambda>c. c \<noteq> CHR ''.'') m;
          fp = drop 1 (dropWhile (\<lambda>c. c \<noteq> CHR ''.'') m)
      in if list_all is_digit ip \<and> list_all is_digit fp \<and> ip @ fp \<noteq> [] then
           (case x of
              [] \<Rightarrow> Some (Finite neg (nat_of_digits (ip @ fp)) (- int (length fp)))
            | _ # xs \<Rightarrow>
                (case parse_exponent xs of
                   None \<Rightarrow> None
                 | Some e \<Rightarrow> Some (Finite neg (nat_of_digits (ip @ fp)) (e - int (length fp)))))
         else None)"

definition decimal_of_string :: "string \<Rightarrow> py_error + decimal" where
  "decimal_of_string s =
     (let (neg, r) = split_sign (filter (\<lambda>c. c \<noteq> CHR ''_'') (strip s));
          l = lower r
      in if l = ''inf'' \<or> l = ''infinity'' then Inr (Infinite neg)
         else if take 3 l = ''nan'' \<and> list_all is_digit (drop 3 l)
           then Inr (QNaN neg (nat_of_digits (drop 3 l)))
         else if take 4 l = ''snan'' \<and> list_all is_digit (drop 4 l)
           then Inr (SNaN neg (nat_of_digits (drop 4 l)))
         else (case parse_number neg r of
                 None \<Rightarrow> Inl InvalidOperation
               | Some d \<Rightarrow> Inr d))"

subsection \<open>Rounding a result to the context\<close>

text \<open>
  \<open>round_half_even c k\<close> drops the last \<open>k\<close> digits of \<open>c\<close>, rounding half to even.
  \<open>dec_fix\<close> is the final step of every arithmetic operation: a NaN keeps at most 28
  digits of payload; a zero has its exponent clamped; a number with more than 28 digits,
  or below the smallest exponent, is rounded; a number above the largest exponent raises
  \<^verbatim>\<open>Overflow\<close>.
\<close>

definition round_half_even :: "nat \<Rightarrow> nat \<Rightarrow> nat" where
  "round_half_even c k =
     (let p = 10 ^ k; q = c div p; r = c mod p
      in if 2 * r > p \<or> (2 * r = p \<and> odd q) then q + 1 else q)"

definition dec_fix :: "decimal \<Rightarrow> py_error + decimal" where
  "dec_fix d =
     (case d of
        QNaN s p \<Rightarrow> Inr (QNaN s (p mod 10 ^ prec))
      | SNaN s p \<Rightarrow> Inr (SNaN s (p mod 10 ^ prec))
      | Infinite s \<Rightarrow> Inr (Infinite s)
      | Finite s c e \<Rightarrow>
          if c = 0 then Inr (Finite s 0 (min (max e Etiny) Emax))
          else
            let exp_min = int (ndigits c) + e - int prec
            in if exp_min > Etop then Inl Overflow
               else
                 let exp_min = max exp_min Etiny
                 in if e < exp_min then
                      let coeff = round_half_even c (nat (exp_min - e));
                          (coeff, exp_min) =
                            (if ndigits coeff > prec then (coeff div 10, exp_min + 1)
                             else (coeff, exp_min))
                      in if exp_min > Etop then Inl Overflow
                         else Inr (Finite s coeff exp_min)
                    else Inr (Finite s c e))"

text \<open>
  The NaN rule shared by the operations: a signalling NaN raises, a quiet one is the
  result, the first operand before the second.
\<close>

definition check_nans :: "decimal \<Rightarrow> decimal \<Rightarrow> (py_error + decimal) option" where
  "check_nans a b =
     (if is_nan a \<or> is_nan b then
        Some (if is_snan a then Inl InvalidOperation
              else if is_snan b then Inl InvalidOperation
              else if is_nan a then dec_fix a
              else dec_fix b)
      else None)"

subsection \<open>Multiplication, comparison with zero, quantize\<close>

definition dec_mul :: "decimal \<Rightarrow> decimal \<Rightarrow> py_error + decimal" where
  "dec_mul a b =
     (let resultsign = (dec_sign a \<noteq> dec_sign b)
      in case check_nans a b of
           Some r \<Rightarrow> r
         | None \<Rightarrow>
             if is_infinite a then
               (if is_zero b then Inl InvalidOperation else Inr (Infinite resultsign))
             else if is_infinite b then
               (if is_zero a then Inl InvalidOperation else Inr (Infinite resultsign))
             else
               (case (a, b) of
                  (Finite s1 c1 e1, Finite s2 c2 e2) \<Rightarrow> dec_fix (Finite resultsign (c1 * c2) (e1 + e2))
                | _ \<Rightarrow> Inl InvalidOperation))"

text \<open>
  \<^verbatim>\<open>d < 0\<close>: an ordering comparison with a NaN raises \<^verbatim>\<open>InvalidOperation\<close>; a zero of
  either sign is not below zero.
\<close>

fun dec_lt_zero :: "decimal \<Rightarrow> py_error + bool" where
  "dec_lt_zero (QNaN s p) = Inl InvalidOperation"
| "dec_lt_zero (SNaN s p) = Inl InvalidOperation"
| "dec_lt_zero (Infinite s) = Inr s"
| "dec_lt_zero (Finite s c e) = Inr (s \<and> c \<noteq> 0)"

text \<open>
  \<open>rescale_down d e\<close> gives \<open>d\<close> the exponent \<open>e\<close>, dropping the digits below it
  (\<^verbatim>\<open>ROUND_DOWN\<close>). \<open>quantize_down d q\<close> is \<^verbatim>\<open>d.quantize(q, rounding=ROUND_DOWN)\<close>: the
  result has the exponent of \<open>q\<close>, and the operation raises \<^verbatim>\<open>InvalidOperation\<close> when the
  result would need more than 28 digits, or when exactly one operand is infinite.
\<close>

fun rescale_down :: "decimal \<Rightarrow> int \<Rightarrow> decimal" where
  "rescale_down (Finite s c e) ex =
     (if c = 0 then Finite s 0 ex
      else if e \<ge> ex then Finite s (c * 10 ^ nat (e - ex)) ex
      else Finite s (c div 10 ^ nat (ex - e)) ex)"
| "rescale_down d ex = d"

fun adjusted :: "decimal \<Rightarrow> int" where
  "adjusted (Finite s c e) = e + int (ndigits c) - 1"
| "adjusted d = 0"

fun coeff_len :: "decimal \<Rightarrow> nat" where
  "coeff_len (Finite s c e) = ndigits c"
| "coeff_len d = 0"

definition quantize_down :: "decimal \<Rightarrow> decimal \<Rightarrow> py_error + decimal" where
  "quantize_down d q =
     (case check_nans d q of
        Some r \<Rightarrow> r
      | None \<Rightarrow>
          if is_infinite q \<or> is_infinite d then
            (if is_infinite q \<and> is_infinite d then Inr d else Inl InvalidOperation)
          else
            (case q of
               Finite qs qc qe \<Rightarrow>
                 if \<not> (Etiny \<le> qe \<and> qe \<le> Emax) then Inl InvalidOperation
                 else if is_zero d then dec_fix (Finite (dec_sign d) 0 qe)
                 else if adjusted d > Emax then Inl InvalidOperation
                 else if adjusted d - qe + 1 > int prec then Inl InvalidOperation
                 else
                   let ans = rescale_down d qe
                   in if adjusted ans > Emax then Inl InvalidOperation
                      else if coeff_len ans > prec then Inl InvalidOperation
                      else dec_fix ans
             | _ \<Rightarrow> Inl InvalidOperation))"

subsection \<open>Fixed-point formatting\<close>

text \<open>
  \<^verbatim>\<open>format(d, "f")\<close>: no exponent, the point placed by the exponent, zeros added on either
  side as needed; a special value is printed by name.
\<close>

definition format_f :: "decimal \<Rightarrow> string" where
  "format_f d =
     (case d of
        Infinite s \<Rightarrow> (if s then ''-'' else '''') @ ''Infinity''
      | QNaN s p \<Rightarrow> (if s then ''-'' else '''') @ ''NaN'' @ (if p = 0 then '''' else digits_of_nat p)
      | SNaN s p \<Rightarrow> (if s then ''-'' else '''') @ ''sNaN'' @ (if p = 0 then '''' else digits_of_nat p)
      | Finite s c e0 \<Rightarrow>
          let e = (if c = 0 \<and> e0 > 0 then 0 else e0);
              ds = digits_of_nat c;
              dotplace = e + int (length ds);
              (intpart, fracpart) =
                (if dotplace < 0 then (''0'', replicate (nat (- dotplace)) CHR ''0'' @ ds)
                 else if dotplace > int (length ds)
                   then (ds @ replicate (nat (dotplace - int (length ds))) CHR ''0'', '''')
                 else ((if take (nat dotplace) ds = [] then ''0'' else take (nat dotplace) ds),
                       drop (nat dotplace) ds))
          in (if s then ''-'' else '''') @ intpart @ (if fracpart \<noteq> [] then ''.'' @ fracpart else ''''))"

section \<open>The amount formatter\<close>

text \<open>
  \<^verbatim>\<open>format_crypto_amount(symbol, amount)\<close>. The precision is chosen from the upper-cased
  symbol; \<^verbatim>\<open>Decimal(10) ** -precision\<close> is the decimal \<open>1E-precision\<close>.
\<close>

definition precision_of :: "string \<Rightarrow> nat" where
  "precision_of symbol =
     (if symbol \<in> {''USDC'', ''USDT''} then 2
      else if symbol \<in> {''XRP'', ''ADA'', ''DOGE'', ''SOL'', ''LTC''} then 4
      else 8)"

definition quant_of :: "nat \<Rightarrow> decimal" where
  "quant_of precision = Finite False 1 (- int precision)"

definition format_crypto_amount :: "string \<Rightarrow> decimal \<Rightarrow> py_error + string" where
  "format_crypto_amount symbol amount =
     (let symbol = upper symbol;
          precision = precision_of symbol;
          quant = quant_of precision
      in case quantize_down amount quant of
           Inl e \<Rightarrow> Inl e
         | Inr d \<Rightarrow> Inr (format_f d))"

section \<open>The rate cache\<close>

text \<open>
  The decoded body of a response. The rate values are JSON strings, as the source
  annotates them (\<^verbatim>\<open>Dict[str, str]\<close>); objects, strings and \<^verbatim>\<open>null\<close> are modelled, numbers,
  booleans and arrays are not. An object is the list of its members as they are written;
  \<open>py_dict\<close> is the \<^verbatim>\<open>dict\<close> that the decoder builds from it: a repeated key keeps its
  first position and its last value.
\<close>

datatype json =
    JObject "(string \<times> json) list"
  | JString string
  | JNull

definition py_dict :: "(string \<times> json) list \<Rightarrow> (string \<times> json) list" where
  "py_dict kvs = fold (\<lambda>(k, v) d. AList.update k v d) kvs []"

text \<open>\<^verbatim>\<open>j.get(k, default)\<close> and \<^verbatim>\<open>j.items()\<close>: only a \<^verbatim>\<open>dict\<close> has these methods.\<close>

definition json_get :: "json \<Rightarrow> string \<Rightarrow> json \<Rightarrow> py_error + json" where
  "json_get j k dflt =
     (case j of
        JObject kvs \<Rightarrow> Inr (case map_of (py_dict kvs) k of None \<Rightarrow> dflt | Some v \<Rightarrow> v)
      | _ \<Rightarrow> Inl AttributeError)"

definition json_items :: "json \<Rightarrow> py_error + (string \<times> json) list" where
  "json_items j = (case j of JObject kvs \<Rightarrow> Inr (py_dict kvs) | _ \<Rightarrow> Inl AttributeError)"

text \<open>\<^verbatim>\<open>Decimal(value)\<close> on a decoded value: \<^verbatim>\<open>None\<close> and a \<^verbatim>\<open>dict\<close> raise \<^verbatim>\<open>TypeError\<close>.\<close>

definition decimal_of_json :: "json \<Rightarrow> py_error + decimal" where
  "decimal_of_json v = (case v of JString s \<Rightarrow> decimal_of_string s | _ \<Rightarrow> Inl TypeError)"

text \<open>
  What \<^verbatim>\<open>requests.get\<close> gives: a transport failure (or a timeout), or a response with its
  status code and its body, \<open>None\<close> when the body is not JSON.
\<close>

datatype http_result =
    Failed
  | Response nat "json option"

record rates_cache =
  timestamp :: real
  rates :: "string \<rightharpoonup> decimal"

definition CACHE_TTL_SECONDS :: real where
  "CACHE_TTL_SECONDS = 60"

text \<open>The cache as the module creates it.\<close>

definition initial_cache :: rates_cache where
  "initial_cache = \<lparr>timestamp = 0, rates = Map.empty\<rparr>"

text \<open>
  The state of the process: the module-level cache, and the number of requests sent to the
  rates API so far. The network is a function from the number of a request to its outcome.
  The clock (\<^verbatim>\<open>time.time()\<close>) is an argument, a real number of seconds; the rounding of
  floating point is not modelled.
\<close>

record world =
  cache :: rates_cache
  requests_sent :: nat

text \<open>The loop over \<^verbatim>\<open>raw_rates.items()\<close>: an entry that does not convert is skipped.\<close>

fun parse_rates ::
  "(string \<times> json) list \<Rightarrow> (string \<rightharpoonup> decimal) \<Rightarrow> py_error + (string \<rightharpoonup> decimal)" where
  "parse_rates [] acc = Inr acc"
| "parse_rates ((symbol, v) # rest) acc =
     (case decimal_of_json v of
        Inr d \<Rightarrow> parse_rates rest (acc(upper symbol \<mapsto> d))
      | Inl e \<Rightarrow>
          if e = InvalidOperation \<or> e = TypeError then parse_rates rest acc else Inl e)"

text \<open>
  From the outcome of the request to the parsed rates: \<^verbatim>\<open>raise_for_status\<close> raises on a
  status from 400 to 599, \<^verbatim>\<open>resp.json()\<close> on a body that is not JSON.
\<close>

definition rates_of_response :: "http_result \<Rightarrow> py_error + (string \<rightharpoonup> decimal)" where
  "rates_of_response r =
     (case r of
        Failed \<Rightarrow> Inl RequestException
      | Response status body \<Rightarrow>
          if 400 \<le> status \<and> status < 600 then Inl HTTPError
          else
            (case body of
               None \<Rightarrow> Inl JSONDecodeError
             | Some data \<Rightarrow>
                 (case json_get data ''data'' (JObject []) of
                    Inl e \<Rightarrow> Inl e
                  | Inr d \<Rightarrow>
                      (case json_get d ''rates'' (JObject []) of
                         Inl e \<Rightarrow> Inl e
                       | Inr raw_rates \<Rightarrow>
                           (case json_items raw_rates of
                              Inl e \<Rightarrow> Inl e
                            | Inr entries \<Rightarrow> parse_rates entries Map.empty)))))"

definition fetch_usd_exchange_rates ::
  "real \<Rightarrow> (nat \<Rightarrow> http_result) \<Rightarrow> world \<Rightarrow> (py_error + (string \<rightharpoonup> decimal)) \<times> world" where
  "fetch_usd_exchange_rates now net w =
     (if now - timestamp (cache w) < CACHE_TTL_SECONDS then (Inr (rates (cache w)), w)
      else
        let resp = net (requests_sent w);
            w1 = w\<lparr>requests_sent := requests_sent w + 1\<rparr>
        in case rates_of_response resp of
             Inl e \<Rightarrow> (Inl e, w1)
           | Inr rs \<Rightarrow> (Inr rs, w1\<lparr>cache := \<lparr>timestamp = now, rates = rs\<rparr>\<rparr>))"

section \<open>The request handler\<close>

definition SUPPORTED_CRYPTOS :: "string list" where
  "SUPPORTED_CRYPTOS =
     [''BTC'', ''ETH'', ''SOL'', ''USDC'', ''USDT'', ''XRP'', ''ADA'', ''DOGE'', ''LTC'']"

text \<open>
  The submitted form: a field that was not sent is \<open>None\<close>; \<^verbatim>\<open>cryptos\<close> is the list of the
  selected values. A request is a \<^verbatim>\<open>GET\<close>, or a \<^verbatim>\<open>POST\<close> with its form.
\<close>

record form =
  item_field :: "string option"
  price_field :: "string option"
  cryptos_field :: "string list"

datatype request = GET | POST form

record row =
  symbol :: string
  usd_rate :: string
  item_amount :: string

text \<open>
  The two messages of the page: \<open>InvalidPrice\<close> is
  \<^verbatim>\<open>Please enter a valid non-negative USD price.\<close> and \<open>FetchFailed e\<close> is
  \<^verbatim>\<open>Failed to fetch live rates:\<close> followed by the text of the exception.
  A \<open>page\<close> holds the arguments given to the template.
\<close>

datatype message = InvalidPrice | FetchFailed py_error

record page =
  error :: "message option"
  results :: "row list"
  item :: "string option"
  price :: "string option"
  all_symbols :: "string list"
  selected_symbols :: "string list"

text \<open>The body of the first \<^verbatim>\<open>try\<close>: the price converts and is not below zero.\<close>

definition valid_price :: "string \<Rightarrow> py_error + decimal" where
  "valid_price price_str =
     (case decimal_of_string price_str of
        Inl e \<Rightarrow> Inl e
      | Inr usd_price \<Rightarrow>
          (case dec_lt_zero usd_price of
             Inl e \<Rightarrow> Inl e
           | Inr below \<Rightarrow> if below then Inl InvalidOperation else Inr usd_price))"

text \<open>
  The loop over the selected symbols. Nothing in it is caught: an exception of the
  multiplication or of the formatter leaves the handler.
\<close>

fun build_results ::
  "decimal \<Rightarrow> (string \<rightharpoonup> decimal) \<Rightarrow> string list \<Rightarrow> row list \<Rightarrow> py_error + row list" where
  "build_results usd_price rs [] acc = Inr acc"
| "build_results usd_price rs (symb # symbs) acc =
     (case rs symb of
        None \<Rightarrow> build_results usd_price rs symbs acc
      | Some rate \<Rightarrow>
          (case dec_mul usd_price rate of
             Inl e \<Rightarrow> Inl e
           | Inr amount \<Rightarrow>
               (case format_crypto_amount symb rate of
                  Inl e \<Rightarrow> Inl e
                | Inr rate_text \<Rightarrow>
                    (case format_crypto_amount symb amount of
                       Inl e \<Rightarrow> Inl e
                     | Inr amount_text \<Rightarrow>
                         build_results usd_price rs symbs
                           (acc @ [\<lparr>symbol = symb, usd_rate = rate_text,
                                    item_amount = amount_text\<rparr>])))))"

definition or_none :: "string \<Rightarrow> string option" where
  "or_none s = (if s = [] then None else Some s)"

definition render ::
  "message option \<Rightarrow> row list \<Rightarrow> string \<Rightarrow> string \<Rightarrow> string list \<Rightarrow> page" where
  "render err rows item_text price_str selected =
     \<lparr>error = err, results = rows, item = or_none item_text, price = or_none price_str,
      all_symbols = SUPPORTED_CRYPTOS, selected_symbols = selected\<rparr>"

definition index ::
  "real \<Rightarrow> (nat \<Rightarrow> http_result) \<Rightarrow> request \<Rightarrow> world \<Rightarrow> (py_error + page) \<times> world" where
  "index now net req w =
     (case req of
        GET \<Rightarrow> (Inr (render None [] [] [] SUPPORTED_CRYPTOS), w)
      | POST f \<Rightarrow>
          let item_text = strip (case item_field f of None \<Rightarrow> [] | Some s \<Rightarrow> s);
              price_str = strip (case price_field f of None \<Rightarrow> [] | Some s \<Rightarrow> s);
              provided = cryptos_field f;
              selected = (if provided \<noteq> [] then map upper provided else SUPPORTED_CRYPTOS)
          in case valid_price price_str of
               Inl e \<Rightarrow>
                 if e = InvalidOperation \<or> e = ValueError
                 then (Inr (render (Some InvalidPrice) [] item_text price_str selected), w)
                 else (Inl e, w)
             | Inr usd_price \<Rightarrow>
                 (case fetch_usd_exchange_rates now net w of
                    (Inl exc, w1) \<Rightarrow>
                      (Inr (render (Some (FetchFailed exc)) [] item_text price_str selected), w1)
                  | (Inr rs, w1) \<Rightarrow>
                      (case build_results usd_price rs selected [] of
                         Inl e \<Rightarrow> (Inl e, w1)
                       | Inr rows \<Rightarrow>
                           (Inr (render None (sort_key symbol rows) item_text price_str selected),
                            w1))))"

section \<open>A worked request\<close>

text \<open>
  The request of the example: the item \<^verbatim>\<open>Headphones\<close> at the price \<^verbatim>\<open>129.99\<close>, nothing selected,
  on a process that has not fetched yet, and an API that answers every request with the
  rates \<^verbatim>\<open>BTC: 0.00002\<close> and \<^verbatim>\<open>USDC: 1.00013\<close>. \<open>example_rows a\<close> is the table with the two rows,
  the amount of the \<^verbatim>\<open>USDC\<close> row being \<open>a\<close>.
\<close>

definition example_body :: json where
  "example_body =
     JObject [(''data'', JObject [(''rates'',
       JObject [(''BTC'', JString ''0.00002''), (''USDC'', JString ''1.00013'')])])]"

definition example_rates :: "string \<rightharpoonup> decimal" where
  "example_rates = [''BTC'' \<mapsto> Finite False 2 (- 5), ''USDC'' \<mapsto> Finite False 100013 (- 5)]"

definition example_net :: "nat \<Rightarrow> http_result" where
  "example_net n = Response 200 (Some example_body)"

definition example_form :: "string \<Rightarrow> form" where
  "example_form price_text =
     \<lparr>item_field = Some ''Headphones'', price_field = Some price_text, cryptos_field = []\<rparr>"

definition example_request :: "string \<Rightarrow> request" where
  "example_request price_text = POST (example_form price_text)"

definition fresh_world :: world where
  "fresh_world = \<lparr>cache = initial_cache, requests_sent = 0\<rparr>"

definition example_rows :: "string \<Rightarrow> row list" where
  "example_rows usdc_amount =
     [\<lparr>symbol = ''BTC'', usd_rate = ''0.00002000'', item_amount = ''0.00259980''\<rparr>,
      \<lparr>symbol = ''USDC'', usd_rate = ''1.00'', item_amount = usdc_amount\<rparr>]"

section \<open>Scenarios for the rate cache\<close>

text \<open>
  A body cannot be parsed when it is not JSON, or when the rates cannot be read from it:
  the body, its \<^verbatim>\<open>data\<close> member or the \<^verbatim>\<open>rates\<close> member of that is not an object.
\<close>

definition unparseable :: "json option \<Rightarrow> bool" where
  "unparseable body =
     (case body of
        None \<Rightarrow> True
      | Some j \<Rightarrow>
          (case json_get j ''data'' (JObject []) of
             Inl _ \<Rightarrow> True
           | Inr d \<Rightarrow>
               (case json_get d ''rates'' (JObject []) of
                  Inl _ \<Rightarrow> True
                | Inr r \<Rightarrow> isl (json_items r))))"

text \<open>
  A fetch failure as the specification words it: the request itself fails, the status is
  not a 2xx status, or the body cannot be parsed.
\<close>

definition fetch_fails :: "http_result \<Rightarrow> bool" where
  "fetch_fails r =
     (case r of
        Failed \<Rightarrow> True
      | Response status body \<Rightarrow> \<not> (200 \<le> status \<and> status < 300) \<or> unparseable body)"

text \<open>
  The same with the statuses that \<^verbatim>\<open>raise_for_status\<close> rejects, those from 400 to 599, in
  the place of the statuses that are not 2xx.
\<close>

definition fetch_raises :: "http_result \<Rightarrow> bool" where
  "fetch_raises r =
     (case r of
        Failed \<Rightarrow> True
      | Response status body \<Rightarrow> (400 \<le> status \<and> status < 600) \<or> unparseable body)"

text \<open>
  An API whose first answer carries an earlier \<^verbatim>\<open>BTC\<close> rate and whose later answers carry the
  rates of the worked request, an API that is out of service, and an API that answers with
  the status 302 and the rates of the worked request.
\<close>

definition earlier_body :: json where
  "earlier_body = JObject [(''data'', JObject [(''rates'', JObject [(''BTC'', JString ''0.00003'')])])]"

definition earlier_rates :: "string \<rightharpoonup> decimal" where
  "earlier_rates = [''BTC'' \<mapsto> Finite False 3 (- 5)]"

definition changing_net :: "nat \<Rightarrow> http_result" where
  "changing_net n = Response 200 (Some (if n = 0 then earlier_body else example_body))"

definition down_net :: "nat \<Rightarrow> http_result" where
  "down_net n = Response 503 None"

definition redirect_net :: "nat \<Rightarrow> http_result" where
  "redirect_net n = Response 302 (Some example_body)"

section \<open>What the claims about the handler speak of\<close>

text \<open>
  The price as the handler reads it from the form, and the symbols it selects.
\<close>

definition submitted_price :: "form \<Rightarrow> string" where
  "submitted_price f = strip (case price_field f of None \<Rightarrow> [] | Some s \<Rightarrow> s)"

definition selected_of :: "form \<Rightarrow> string list" where
  "selected_of f = (if cryptos_field f \<noteq> [] then map upper (cryptos_field f) else SUPPORTED_CRYPTOS)"

text \<open>
  A string parses as a non-negative decimal when the constructor accepts it and the number
  it denotes is not below zero: a finite number \<open>\<plusminus> c \<cdot> 10\<^sup>e\<close> by its value, an infinity by its
  sign; a NaN is not a number.
\<close>

definition non_negative_decimal :: "string \<Rightarrow> bool" where
  "non_negative_decimal s =
     (case decimal_of_string s of
        Inl _ \<Rightarrow> False
      | Inr d \<Rightarrow>
          (case d of
             Finite sg c e \<Rightarrow> 0 \<le> (if sg then - real c else real c) * power_int 10 e
           | Infinite sg \<Rightarrow> \<not> sg
           | _ \<Rightarrow> False))"

text \<open>The page and the state that the worked request ends with.\<close>

definition example_page :: page where
  "example_page =
     \<lparr>error = None, results = example_rows ''130.00'', item = Some ''Headphones'',
      price = Some ''129.99'', all_symbols = SUPPORTED_CRYPTOS,
      selected_symbols = SUPPORTED_CRYPTOS\<rparr>"

definition example_world :: world where
  "example_world = \<lparr>cache = \<lparr>timestamp = 1000, rates = example_rates\<rparr>, requests_sent = 1\<rparr>"

text \<open>The page of the same request with the price \<^verbatim>\<open>0\<close>.\<close>

definition zero_price_page :: page where
  "zero_price_page =
     \<lparr>error = None,
      results =
        [\<lparr>symbol = ''BTC'', usd_rate = ''0.00002000'', item_amount = ''0.00000000''\<rparr>,
         \<lparr>symbol = ''USDC'', usd_rate = ''1.00'', item_amount = ''0.00''\<rparr>],
      item = Some ''Headphones'', price = Some ''0'', all_symbols = SUPPORTED_CRYPTOS,
      selected_symbols = SUPPORTED_CRYPTOS\<rparr>"

section \<open>What the claims about the formatter speak of\<close>

text \<open>
  The number of digits after the decimal point of a text (none when the text has no point
  or has something else than digits after it), the number that a text of the form
  \<^verbatim>\<open>[-]digits.digits\<close> denotes, and the number that a finite decimal denotes.
\<close>

definition digits_after_point :: "string \<Rightarrow> nat option" where
  "digits_after_point s =
     (case dropWhile (\<lambda>c. c \<noteq> CHR ''.'') s of
        [] \<Rightarrow> None
      | _ # fp \<Rightarrow> if list_all is_digit fp then Some (length fp) else None)"

definition denoted_value :: "string \<Rightarrow> real" where
  "denoted_value s =
     (let (neg, r) = split_sign s;
          ip = takeWhile (\<lambda>c. c \<noteq> CHR ''.'') r;
          fp = drop 1 (dropWhile (\<lambda>c. c \<noteq> CHR ''.'') r);
          v = real (nat_of_digits (ip @ fp)) / 10 ^ length fp
      in if neg then - v else v)"

definition dec_value :: "decimal \<Rightarrow> real" where
  "dec_value d =
     (case d of
        Finite sg c e \<Rightarrow> (if sg then - real c else real c) * power_int 10 e
      | _ \<Rightarrow> 0)"

section \<open>Evaluation rules\<close>

text \<open>The definitions are unfolded by the simplifier when the model is run on a concrete
  input; the collections below name the unfolding rules of each layer.\<close>

lemma replicate_chars: "replicate (numeral k) (c::char) = c # replicate (pred_numeral k) c"
  by (simp add: numeral_eq_Suc)

lemmas str_defs = strip_def is_space_def upper_def upper_char_def lower_def lower_char_def
  is_digit_def nat_of_digits_def digit_val_def digits_of_nat.simps digit_char_def replicate_chars

lemmas ctx_defs = prec_def Emax_def Emin_def Etiny_def Etop_def

lemmas parse_defs = decimal_of_string_def parse_number_def parse_exponent_def split_sign_def
  str_defs

lemmas arith_defs = dec_mul_def check_nans_def dec_fix_def round_half_even_def ndigits_def
  quantize_down_def ctx_defs str_defs

lemmas fmt_defs = format_crypto_amount_def precision_of_def quant_of_def format_f_def arith_defs

section \<open>Symbols are matched case-insensitively\<close>

lemma upper_char_idem: "upper_char (upper_char c) = upper_char c"
  by (simp add: upper_char_def split: option.splits)

lemma upper_idem: "upper (upper s) = upper s"
  by (simp add: upper_def upper_char_idem)

text \<open>C10: \<^const>\<open>format_crypto_amount\<close> upper-cases the symbol before it looks up the
  precision, so a symbol and its upper-case form are formatted alike, whatever the amount
  (also when the formatting raises: both sides then raise the same exception).\<close>

theorem format_case_insensitive:
  "format_crypto_amount s amount = format_crypto_amount (upper s) amount"
  by (simp add: format_crypto_amount_def upper_idem)

lemmas json_defs = rates_of_response_def json_get_def json_items_def py_dict_def
  decimal_of_json_def

lemmas index_defs = index_def fetch_usd_exchange_rates_def CACHE_TTL_SECONDS_def
  initial_cache_def render_def or_none_def less_eq_char_def less_char_def

section \<open>The worked request, evaluated\<close>

lemma example_rates_parsed:
  "rates_of_response (Response 200 (Some example_body)) = Inr example_rates"
  by (simp add: example_body_def example_rates_def json_defs parse_defs)

lemma example_price_valid: "valid_price ''129.99'' = Inr (Finite False 12999 (- 2))"
  by (simp add: valid_price_def parse_defs)

lemma example_product:
  "dec_mul (Finite False 12999 (- 2)) (Finite False 100013 (- 5))
     = Inr (Finite False 1300068987 (- 7))"
  by (simp add: arith_defs)

lemma example_build:
  "build_results (Finite False 12999 (- 2)) example_rates SUPPORTED_CRYPTOS []
     = Inr (example_rows ''130.00'')"
  by (simp add: example_rates_def example_rows_def SUPPORTED_CRYPTOS_def fmt_defs)

lemma example_strip:
  "strip ''129.99'' = ''129.99''" "strip ''Headphones'' = ''Headphones''"
  "strip ''2e30'' = ''2e30''"
  by (simp_all add: str_defs)

lemma example_sorted: "sort_key symbol (example_rows a) = example_rows a"
  by (simp add: example_rows_def less_eq_char_def less_char_def)

lemma example_index:
  "index 1000 example_net (example_request ''129.99'') fresh_world =
     (Inr \<lparr>error = None, results = example_rows ''130.00'', item = Some ''Headphones'',
           price = Some ''129.99'', all_symbols = SUPPORTED_CRYPTOS,
           selected_symbols = SUPPORTED_CRYPTOS\<rparr>,
      \<lparr>cache = \<lparr>timestamp = 1000, rates = example_rates\<rparr>, requests_sent = 1\<rparr>)"
  by (simp add: index_defs example_request_def example_form_def example_net_def fresh_world_def example_strip
      example_price_valid example_rates_parsed example_build example_sorted)

text \<open>C7, as the code has it: for the item \<^verbatim>\<open>Headphones\<close> at \<^verbatim>\<open>129.99\<close> with the fetched rates
  \<^verbatim>\<open>BTC: 0.00002\<close> and \<^verbatim>\<open>USDC: 1.00013\<close>, the handler returns the rows sorted by symbol: the
  \<^verbatim>\<open>BTC\<close> row with the rate \<^verbatim>\<open>0.00002000\<close> and the amount \<^verbatim>\<open>0.00259980\<close>, and the \<^verbatim>\<open>USDC\<close> row with
  the rate \<^verbatim>\<open>1.00\<close> and the amount \<^verbatim>\<open>130.00\<close>: the product is \<^verbatim>\<open>130.0068987\<close>
  (\<open>example_product\<close>), truncated to two places.\<close>

theorem example_results:
  "map_sum id results (fst (index 1000 example_net (example_request ''129.99'') fresh_world))
     = Inr (example_rows ''130.00'')"
  by (simp add: example_index)

text \<open>C7, as the specification states it, with the amount \<^verbatim>\<open>130.01\<close> in the \<^verbatim>\<open>USDC\<close> row, does
  not hold.\<close>

theorem example_results_not_as_stated:
  "map_sum id results (fst (index 1000 example_net (example_request ''129.99'') fresh_world))
     \<noteq> Inr (example_rows ''130.01'')"
  by (simp add: example_index example_rows_def)

section \<open>An exception that leaves the handler\<close>

lemma large_price_valid: "valid_price ''2e30'' = Inr (Finite False 2 30)"
  by (simp add: valid_price_def parse_defs)

lemma large_price_build:
  "build_results (Finite False 2 30) example_rates SUPPORTED_CRYPTOS [] = Inl InvalidOperation"
  by (simp add: example_rates_def SUPPORTED_CRYPTOS_def fmt_defs)

text \<open>C8 fails: the price \<^verbatim>\<open>2e30\<close> is accepted, the rates are fetched, and the amount
  \<^verbatim>\<open>4E+25\<close> of the \<^verbatim>\<open>BTC\<close> row does not fit the 28 digits of the context at eight decimal
  places, so \<^verbatim>\<open>quantize\<close> raises \<^verbatim>\<open>InvalidOperation\<close> in the loop, where nothing catches it:
  the handler ends with the exception, not with a page.\<close>

theorem large_price_uncaught:
  "index 1000 example_net (example_request ''2e30'') fresh_world =
     (Inl InvalidOperation,
      \<lparr>cache = \<lparr>timestamp = 1000, rates = example_rates\<rparr>, requests_sent = 1\<rparr>)"
  by (simp add: index_defs example_request_def example_form_def example_net_def fresh_world_def example_strip
      large_price_valid example_rates_parsed large_price_build)

section \<open>Properties of the rate cache\<close>

lemma fetch_hit:
  "now - timestamp (cache w) < CACHE_TTL_SECONDS \<Longrightarrow>
     fetch_usd_exchange_rates now net w = (Inr (rates (cache w)), w)"
  by (simp add: fetch_usd_exchange_rates_def)

lemma fetch_miss:
  "CACHE_TTL_SECONDS \<le> now - timestamp (cache w) \<Longrightarrow>
     fetch_usd_exchange_rates now net w =
       (case rates_of_response (net (requests_sent w)) of
          Inl e \<Rightarrow> (Inl e, w\<lparr>requests_sent := requests_sent w + 1\<rparr>)
        | Inr rs \<Rightarrow>
            (Inr rs, w\<lparr>requests_sent := requests_sent w + 1,
                        cache := \<lparr>timestamp = now, rates = rs\<rparr>\<rparr>))"
  by (simp add: fetch_usd_exchange_rates_def Let_def split: sum.splits)

lemma fetch_returns_cached:
  assumes "fetch_usd_exchange_rates now net w = (Inr r, w1)"
  shows "rates (cache w1) = r" and "requests_sent w1 \<le> requests_sent w + 1"
  using assms
  by (auto simp add: fetch_usd_exchange_rates_def Let_def split: if_splits sum.splits)

lemma decimal_of_string_error: "decimal_of_string s = Inl e \<Longrightarrow> e = InvalidOperation"
  by (auto simp add: decimal_of_string_def Let_def split: prod.splits if_splits option.splits)

lemma decimal_of_json_error:
  "decimal_of_json v = Inl e \<Longrightarrow> e = InvalidOperation \<or> e = TypeError"
  by (cases v) (auto simp add: decimal_of_json_def dest: decimal_of_string_error)

lemma parse_rates_returns: "\<not> isl (parse_rates entries acc)"
proof (induction entries arbitrary: acc)
  case Nil
  show ?case
    by simp
next
  case (Cons entry entries)
  obtain k v where entry: "entry = (k, v)"
    by (cases entry)
  show ?case
  proof (cases "decimal_of_json v")
    case (Inl e)
    with decimal_of_json_error [OF Inl] Cons show ?thesis
      by (auto simp add: entry)
  next
    case (Inr d)
    with Cons show ?thesis
      by (simp add: entry)
  qed
qed

lemma fetch_raises_iff: "isl (rates_of_response r) = fetch_raises r"
  by (auto simp add: fetch_raises_def unparseable_def rates_of_response_def parse_rates_returns
      split: http_result.splits option.splits sum.splits)

lemma redirect_cached:
  "fetch_usd_exchange_rates 1000 redirect_net fresh_world = (Inr example_rates, example_world)"
  by (simp add: fetch_miss fresh_world_def initial_cache_def CACHE_TTL_SECONDS_def
      redirect_net_def rates_of_response_def [of "Response 302 (Some example_body)"]
      example_rates_parsed [unfolded rates_of_response_def, simplified] example_world_def)

lemma earlier_rates_parsed:
  "rates_of_response (Response 200 (Some earlier_body)) = Inr earlier_rates"
  by (simp add: earlier_body_def earlier_rates_def json_defs parse_defs)

lemma rates_changed: "earlier_rates \<noteq> example_rates"
proof
  assume "earlier_rates = example_rates"
  then have "earlier_rates ''USDC'' = example_rates ''USDC''"
    by simp
  then show False
    by (simp add: earlier_rates_def example_rates_def)
qed

lemma first_call:
  "fetch_usd_exchange_rates 1000 changing_net fresh_world =
     (Inr earlier_rates, \<lparr>cache = \<lparr>timestamp = 1000, rates = earlier_rates\<rparr>, requests_sent = 1\<rparr>)"
  by (simp add: fetch_miss fresh_world_def initial_cache_def CACHE_TTL_SECONDS_def
      changing_net_def earlier_rates_parsed)

lemma third_call:
  "fetch_usd_exchange_rates 1100 changing_net
       \<lparr>cache = \<lparr>timestamp = 1000, rates = earlier_rates\<rparr>, requests_sent = 1\<rparr> =
     (Inr example_rates, \<lparr>cache = \<lparr>timestamp = 1100, rates = example_rates\<rparr>, requests_sent = 2\<rparr>)"
  by (simp add: fetch_miss CACHE_TTL_SECONDS_def changing_net_def example_rates_parsed)

text \<open>C3, as the code has it: when the snapshot in the cache was fetched less than 60 seconds
  before the current time, \<^const>\<open>fetch_usd_exchange_rates\<close> returns its rates and leaves the
  state as it is, so no request is sent. Hence, after a call that returned rates, a second
  call less than 60 seconds after the fetch of the snapshot that the first call left returns
  the same rates and sends no request, and the first call sent at most one. When the first
  call is the one that fetched, this is a second call within 60 seconds of the first.\<close>

theorem cached_rates_reused:
  "(now - timestamp (cache w) < CACHE_TTL_SECONDS \<longrightarrow>
      fetch_usd_exchange_rates now net w = (Inr (rates (cache w)), w)) \<and>
   (fetch_usd_exchange_rates t1 net w = (Inr r1, w1) \<and>
    t2 - timestamp (cache w1) < CACHE_TTL_SECONDS \<longrightarrow>
      fetch_usd_exchange_rates t2 net w1 = (Inr r1, w1) \<and>
      requests_sent w1 \<le> requests_sent w + 1) \<and>
   (CACHE_TTL_SECONDS \<le> t1 - timestamp (cache w) \<and>
    fetch_usd_exchange_rates t1 net w = (Inr r1, w1) \<and> t2 - t1 < CACHE_TTL_SECONDS \<longrightarrow>
      fetch_usd_exchange_rates t2 net w1 = (Inr r1, w1) \<and>
      requests_sent w1 = requests_sent w + 1)"
proof (intro conjI impI)
  assume "now - timestamp (cache w) < CACHE_TTL_SECONDS"
  then show "fetch_usd_exchange_rates now net w = (Inr (rates (cache w)), w)"
    by (rule fetch_hit)
next
  assume a: "fetch_usd_exchange_rates t1 net w = (Inr r1, w1) \<and>
    t2 - timestamp (cache w1) < CACHE_TTL_SECONDS"
  then show "fetch_usd_exchange_rates t2 net w1 = (Inr r1, w1)"
    using fetch_returns_cached(1) [of t1 net w r1 w1] by (simp add: fetch_hit)
  from a show "requests_sent w1 \<le> requests_sent w + 1"
    using fetch_returns_cached(2) [of t1 net w r1 w1] by simp
next
  assume a: "CACHE_TTL_SECONDS \<le> t1 - timestamp (cache w) \<and>
    fetch_usd_exchange_rates t1 net w = (Inr r1, w1) \<and> t2 - t1 < CACHE_TTL_SECONDS"
  then have w1: "w1 = w\<lparr>requests_sent := requests_sent w + 1,
      cache := \<lparr>timestamp = t1, rates = r1\<rparr>\<rparr>"
    by (auto simp add: fetch_miss split: sum.splits)
  with a show "fetch_usd_exchange_rates t2 net w1 = (Inr r1, w1)"
    by (simp add: fetch_hit)
  from w1 show "requests_sent w1 = requests_sent w + 1"
    by simp
qed

theorem cached_rates_reused_witness:
  "fetch_usd_exchange_rates 1059 changing_net
       \<lparr>cache = \<lparr>timestamp = 1000, rates = earlier_rates\<rparr>, requests_sent = 1\<rparr> =
     (Inr earlier_rates, \<lparr>cache = \<lparr>timestamp = 1000, rates = earlier_rates\<rparr>, requests_sent = 1\<rparr>) \<and>
   fetch_usd_exchange_rates 1130 changing_net
       \<lparr>cache = \<lparr>timestamp = 1100, rates = example_rates\<rparr>, requests_sent = 2\<rparr> =
     (Inr example_rates, \<lparr>cache = \<lparr>timestamp = 1100, rates = example_rates\<rparr>, requests_sent = 2\<rparr>)"
  using cached_rates_reused [of 1059
      "\<lparr>cache = \<lparr>timestamp = 1000, rates = earlier_rates\<rparr>, requests_sent = 1\<rparr>" changing_net
      1100 example_rates
      "\<lparr>cache = \<lparr>timestamp = 1100, rates = example_rates\<rparr>, requests_sent = 2\<rparr>" 1130]
    third_call
  by (simp add: CACHE_TTL_SECONDS_def)

text \<open>C3, as the specification states it, does not hold: the 60 seconds count from the fetch
  of the snapshot, not from the previous call. After a fetch at time 1000, a call at 1059
  returns the snapshot and a call at 1100, 41 seconds later, fetches again and returns the
  new rates; no fetch fails.\<close>

theorem calls_within_ttl_differ:
  "fetch_usd_exchange_rates 1000 changing_net fresh_world =
     (Inr earlier_rates, \<lparr>cache = \<lparr>timestamp = 1000, rates = earlier_rates\<rparr>, requests_sent = 1\<rparr>) \<and>
   fetch_usd_exchange_rates 1059 changing_net
       \<lparr>cache = \<lparr>timestamp = 1000, rates = earlier_rates\<rparr>, requests_sent = 1\<rparr> =
     (Inr earlier_rates, \<lparr>cache = \<lparr>timestamp = 1000, rates = earlier_rates\<rparr>, requests_sent = 1\<rparr>) \<and>
   fetch_usd_exchange_rates 1100 changing_net
       \<lparr>cache = \<lparr>timestamp = 1000, rates = earlier_rates\<rparr>, requests_sent = 1\<rparr> =
     (Inr example_rates, \<lparr>cache = \<lparr>timestamp = 1100, rates = example_rates\<rparr>, requests_sent = 2\<rparr>) \<and>
   (1100 :: real) - 1059 < CACHE_TTL_SECONDS \<and>
   earlier_rates \<noteq> example_rates"
  by (intro conjI first_call third_call rates_changed)
    (simp_all add: fetch_hit CACHE_TTL_SECONDS_def)

text \<open>C4: a call 60 seconds or more after the fetch of the snapshot in the cache (the cache
  of a process that has not fetched yet has the timestamp 0) sends exactly one request; when
  the response parses to the rates \<open>rs\<close>, the call returns \<open>rs\<close> and the cache holds the time
  of the call and \<open>rs\<close>.\<close>

theorem stale_cache_refetches:
  "CACHE_TTL_SECONDS \<le> now - timestamp (cache w) \<Longrightarrow>
     requests_sent (snd (fetch_usd_exchange_rates now net w)) = requests_sent w + 1 \<and>
     (rates_of_response (net (requests_sent w)) = Inr rs \<longrightarrow>
        fetch_usd_exchange_rates now net w =
          (Inr rs, \<lparr>cache = \<lparr>timestamp = now, rates = rs\<rparr>,
                    requests_sent = requests_sent w + 1\<rparr>))"
  by (simp add: fetch_miss split: sum.splits)

theorem stale_cache_refetches_witness:
  "fetch_usd_exchange_rates 1000 example_net fresh_world =
     (Inr example_rates, \<lparr>cache = \<lparr>timestamp = 1000, rates = example_rates\<rparr>, requests_sent = 1\<rparr>)"
  using stale_cache_refetches [of 1000 fresh_world example_net example_rates]
  by (simp add: CACHE_TTL_SECONDS_def fresh_world_def initial_cache_def example_net_def
      example_rates_parsed)

text \<open>C6, as the code has it: when the cache is stale and the fetch fails, by a request that
  fails, a status from 400 to 599, or a body that cannot be parsed,
  \<^const>\<open>fetch_usd_exchange_rates\<close> raises, the cache keeps its timestamp and its rates, one
  request was sent, and a call at any later time sends a request again: the failure is not
  cached.\<close>

theorem failed_fetch_not_cached:
  assumes "CACHE_TTL_SECONDS \<le> now - timestamp (cache w)"
    and "fetch_raises (net (requests_sent w))"
    and "now \<le> later"
  shows "isl (fst (fetch_usd_exchange_rates now net w)) \<and>
     snd (fetch_usd_exchange_rates now net w) = w\<lparr>requests_sent := requests_sent w + 1\<rparr> \<and>
     requests_sent (snd (fetch_usd_exchange_rates later net'
         (snd (fetch_usd_exchange_rates now net w)))) = requests_sent w + 2"
proof -
  from assms(2) have "isl (rates_of_response (net (requests_sent w)))"
    by (simp add: fetch_raises_iff)
  then obtain e where e: "rates_of_response (net (requests_sent w)) = Inl e"
    by (cases "rates_of_response (net (requests_sent w))") auto
  with assms(1) have r: "fetch_usd_exchange_rates now net w =
      (Inl e, w\<lparr>requests_sent := requests_sent w + 1\<rparr>)"
    by (simp add: fetch_miss)
  from assms(1,3) have
    "CACHE_TTL_SECONDS \<le> later - timestamp (cache (w\<lparr>requests_sent := requests_sent w + 1\<rparr>))"
    by simp
  then have "requests_sent (snd (fetch_usd_exchange_rates later net'
      (w\<lparr>requests_sent := requests_sent w + 1\<rparr>))) = requests_sent w + 2"
    by (simp add: fetch_miss split: sum.splits)
  with r show ?thesis
    by simp
qed

theorem failed_fetch_not_cached_witness:
  "isl (fst (fetch_usd_exchange_rates 1000 down_net fresh_world)) \<and>
   snd (fetch_usd_exchange_rates 1000 down_net fresh_world) =
     fresh_world\<lparr>requests_sent := requests_sent fresh_world + 1\<rparr> \<and>
   requests_sent (snd (fetch_usd_exchange_rates 1001 example_net
       (snd (fetch_usd_exchange_rates 1000 down_net fresh_world)))) =
     requests_sent fresh_world + 2"
  by (rule failed_fetch_not_cached [of 1000 fresh_world down_net 1001 example_net])
    (simp_all add: CACHE_TTL_SECONDS_def fresh_world_def initial_cache_def down_net_def
      fetch_raises_def)

text \<open>C6, as the specification states it, with every status that is not 2xx a failure, does
  not hold: \<^verbatim>\<open>raise_for_status\<close> raises for the statuses from 400 to 599 only. On a response
  with the status 302 and a body with rates, a failure in the words of the specification,
  the call does not raise: it returns the rates and replaces the cache.\<close>

theorem non_success_status_cached:
  "fetch_fails (redirect_net (requests_sent fresh_world)) \<and>
   CACHE_TTL_SECONDS \<le> 1000 - timestamp (cache fresh_world) \<and>
   fetch_usd_exchange_rates 1000 redirect_net fresh_world = (Inr example_rates, example_world) \<and>
   cache example_world = \<lparr>timestamp = 1000, rates = example_rates\<rparr> \<and>
   timestamp (cache example_world) \<noteq> timestamp (cache fresh_world)"
  by (intro conjI redirect_cached)
    (simp_all add: fetch_fails_def redirect_net_def CACHE_TTL_SECONDS_def fresh_world_def
      initial_cache_def example_world_def)

section \<open>Properties of the request handler\<close>

lemma dec_lt_zero_error: "dec_lt_zero d = Inl e \<Longrightarrow> e = InvalidOperation"
  by (cases d) auto

lemma valid_price_error: "valid_price s = Inl e \<Longrightarrow> e = InvalidOperation"
  by (auto simp add: valid_price_def dest: decimal_of_string_error dec_lt_zero_error
      split: sum.splits if_splits)

lemma finite_below_zero:
  "(0 \<le> (if sg then - real c else real c) * power_int 10 e) = (\<not> (sg \<and> c \<noteq> 0))"
proof -
  have "\<not> power_int 10 e \<le> (0::real)"
    by (simp add: not_le)
  then show ?thesis
    by (simp add: zero_le_mult_iff mult_le_0_iff)
qed

lemma valid_price_iff: "non_negative_decimal s = (\<exists>d. valid_price s = Inr d)"
proof (cases "decimal_of_string s")
  case (Inl e)
  then show ?thesis
    by (simp add: non_negative_decimal_def valid_price_def)
next
  case (Inr d)
  then show ?thesis
    by (cases d) (auto simp add: non_negative_decimal_def valid_price_def finite_below_zero)
qed

lemma zero_price_valid: "valid_price ''0'' = Inr (Finite False 0 0)"
  by (simp add: valid_price_def parse_defs)

lemma index_POST:
  "index now net (POST f) w =
     (case valid_price (submitted_price f) of
        Inl e \<Rightarrow>
          if e = InvalidOperation \<or> e = ValueError
          then (Inr (render (Some InvalidPrice) []
                  (strip (case item_field f of None \<Rightarrow> [] | Some s \<Rightarrow> s))
                  (submitted_price f) (selected_of f)), w)
          else (Inl e, w)
      | Inr usd_price \<Rightarrow>
          (case fetch_usd_exchange_rates now net w of
             (Inl exc, w1) \<Rightarrow>
               (Inr (render (Some (FetchFailed exc)) []
                  (strip (case item_field f of None \<Rightarrow> [] | Some s \<Rightarrow> s))
                  (submitted_price f) (selected_of f)), w1)
           | (Inr rs, w1) \<Rightarrow>
               (case build_results usd_price rs (selected_of f) [] of
                  Inl e \<Rightarrow> (Inl e, w1)
                | Inr rows \<Rightarrow>
                    (Inr (render None (sort_key symbol rows)
                       (strip (case item_field f of None \<Rightarrow> [] | Some s \<Rightarrow> s))
                       (submitted_price f) (selected_of f)), w1))))"
  unfolding index_def submitted_price_def selected_of_def Let_def
  by simp
lemma zero_price_build:
  "build_results (Finite False 0 0) example_rates SUPPORTED_CRYPTOS [] =
     Inr (results zero_price_page)"
  by (simp add: example_rates_def zero_price_page_def SUPPORTED_CRYPTOS_def fmt_defs)

lemma zero_price_sorted: "sort_key symbol (results zero_price_page) = results zero_price_page"
  by (simp add: zero_price_page_def less_eq_char_def less_char_def)

lemma zero_price_index:
  "index 1000 example_net (example_request ''0'') fresh_world =
     (Inr zero_price_page,
      \<lparr>cache = \<lparr>timestamp = 1000, rates = example_rates\<rparr>, requests_sent = 1\<rparr>)"
proof -
  have "strip ''0'' = ''0''"
    by (simp add: str_defs)
  moreover have "zero_price_page =
      \<lparr>error = None, results = results zero_price_page, item = Some ''Headphones'',
       price = Some ''0'', all_symbols = SUPPORTED_CRYPTOS,
       selected_symbols = SUPPORTED_CRYPTOS\<rparr>"
    by (simp add: zero_price_page_def)
  ultimately show ?thesis
    by (simp add: index_defs example_request_def example_form_def example_net_def fresh_world_def
        example_strip zero_price_valid example_rates_parsed zero_price_build zero_price_sorted)
qed

lemma accepted_price:
  assumes "non_negative_decimal (submitted_price f)"
  shows "snd (index now net (POST f) w) = snd (fetch_usd_exchange_rates now net w)"
    and "fst (index now net (POST f) w) = Inr pg \<Longrightarrow> error pg \<noteq> Some InvalidPrice"
proof -
  from assms obtain usd_price where p: "valid_price (submitted_price f) = Inr usd_price"
    by (auto simp add: valid_price_iff)
  then show "snd (index now net (POST f) w) = snd (fetch_usd_exchange_rates now net w)"
    by (simp add: index_POST split: prod.splits sum.splits)
  from p show "error pg \<noteq> Some InvalidPrice" if "fst (index now net (POST f) w) = Inr pg"
    using that by (auto simp add: index_POST render_def split: prod.splits sum.splits)
qed

text \<open>C5: for every form whose price does not parse as a non-negative decimal, whatever the
  time, the network and the state, the handler returns the page with the validation message
  and no result rows and leaves the state as it is (no request is sent, the cache is not
  touched); the prices \<^verbatim>\<open>-5\<close> and \<^verbatim>\<open>abc\<close> are such prices. A price that parses as a non-negative
  decimal is accepted: the handler goes on to the rates, leaving the state that the lookup
  leaves, and a page that it returns does not carry the validation message. The price \<^verbatim>\<open>0\<close> is
  such a price, and the worked request with the price \<^verbatim>\<open>0\<close> is answered with the rows of the
  two rates, the amounts being zero, and no message.\<close>

theorem invalid_price_rejected:
  "(\<not> non_negative_decimal (submitted_price f) \<longrightarrow>
      (\<exists>pg. index now net (POST f) w = (Inr pg, w) \<and>
            error pg = Some InvalidPrice \<and> results pg = [])) \<and>
   (non_negative_decimal (submitted_price f) \<longrightarrow>
      snd (index now net (POST f) w) = snd (fetch_usd_exchange_rates now net w) \<and>
      (\<forall>pg. fst (index now net (POST f) w) = Inr pg \<longrightarrow> error pg \<noteq> Some InvalidPrice)) \<and>
   \<not> non_negative_decimal ''-5'' \<and> \<not> non_negative_decimal ''abc'' \<and>
   non_negative_decimal ''0'' \<and> valid_price ''0'' = Inr (Finite False 0 0) \<and>
   index 1000 example_net (example_request ''0'') fresh_world =
     (Inr zero_price_page,
      \<lparr>cache = \<lparr>timestamp = 1000, rates = example_rates\<rparr>, requests_sent = 1\<rparr>)"
proof (intro conjI impI allI)
  assume "\<not> non_negative_decimal (submitted_price f)"
  then obtain e where "valid_price (submitted_price f) = Inl e"
    by (cases "valid_price (submitted_price f)") (auto simp add: valid_price_iff)
  moreover from this have "e = InvalidOperation"
    by (rule valid_price_error)
  ultimately show "\<exists>pg. index now net (POST f) w = (Inr pg, w) \<and>
      error pg = Some InvalidPrice \<and> results pg = []"
    by (simp add: index_POST render_def)
next
  assume "non_negative_decimal (submitted_price f)"
  then show "snd (index now net (POST f) w) = snd (fetch_usd_exchange_rates now net w)"
    by (rule accepted_price(1))
next
  fix pg
  assume "non_negative_decimal (submitted_price f)"
    and "fst (index now net (POST f) w) = Inr pg"
  then show "error pg \<noteq> Some InvalidPrice"
    by (rule accepted_price(2))
next
  show "\<not> non_negative_decimal ''-5''"
    by (simp add: non_negative_decimal_def parse_defs)
  show "\<not> non_negative_decimal ''abc''"
    by (simp add: non_negative_decimal_def parse_defs)
  show "non_negative_decimal ''0''"
    by (simp add: non_negative_decimal_def parse_defs)
  show "valid_price ''0'' = Inr (Finite False 0 0)"
    by (rule zero_price_valid)
  show "index 1000 example_net (example_request ''0'') fresh_world =
     (Inr zero_price_page,
      \<lparr>cache = \<lparr>timestamp = 1000, rates = example_rates\<rparr>, requests_sent = 1\<rparr>)"
    by (rule zero_price_index)
qed

theorem invalid_price_rejected_witness:
  "(\<exists>pg. index 1000 example_net (POST (example_form ''-5'')) fresh_world = (Inr pg, fresh_world) \<and>
      error pg = Some InvalidPrice \<and> results pg = []) \<and>
   snd (index 1000 example_net (POST (example_form ''0'')) fresh_world) =
     snd (fetch_usd_exchange_rates 1000 example_net fresh_world)"
  using invalid_price_rejected [of "example_form ''-5''" 1000 example_net fresh_world]
    invalid_price_rejected [of "example_form ''0''" 1000 example_net fresh_world]
  by (simp add: submitted_price_def example_form_def non_negative_decimal_def parse_defs)

section \<open>The rows of the result\<close>

lemma insort_key_map: "map f (insort_key f x xs) = insort (f x) (map f xs)"
  by (induction xs) simp_all

lemma sort_key_map: "map f (sort_key f xs) = sort (map f xs)"
  by (induction xs) (simp_all add: insort_key_map)

lemma build_results_symbols:
  "build_results usd_price rs symbs acc = Inr rows \<Longrightarrow>
     map symbol rows = map symbol acc @ filter (\<lambda>s. rs s \<noteq> None) symbs"
proof (induction symbs arbitrary: acc)
  case Nil
  then show ?case
    by simp
next
  case (Cons s symbs)
  show ?case
  proof (cases "rs s")
    case None
    with Cons show ?thesis
      by simp
  next
    case (Some rate)
    with Cons.prems obtain amount rate_text amount_text where
      "build_results usd_price rs symbs
         (acc @ [\<lparr>symbol = s, usd_rate = rate_text, item_amount = amount_text\<rparr>]) = Inr rows"
      by (auto split: sum.splits)
    from Cons.IH [OF this] Some show ?thesis
      by simp
  qed
qed

lemma build_results_absent:
  "\<forall>s \<in> set symbs. rs s = None \<Longrightarrow> build_results usd_price rs symbs acc = Inr acc"
  by (induction symbs arbitrary: acc) simp_all

lemma example_index_page:
  "index 1000 example_net (example_request ''129.99'') fresh_world =
     (Inr example_page, example_world)"
  by (simp add: example_index example_page_def example_world_def)

lemma example_fetch:
  "fetch_usd_exchange_rates 1000 example_net fresh_world = (Inr example_rates, example_world)"
  by (simp add: fetch_miss fresh_world_def initial_cache_def CACHE_TTL_SECONDS_def
      example_net_def example_rates_parsed example_world_def)

lemma example_price_accepted: "non_negative_decimal (submitted_price (example_form ''129.99''))"
  by (simp add: valid_price_iff submitted_price_def example_form_def example_strip
      example_price_valid)

text \<open>C9: for a form whose price is valid and a fetch that returned the rates \<open>rs\<close>, a page
  that the handler returns has no error message, and the symbols of its rows are the
  selected symbols (the upper-cased selection of the form, or the default list) that have a
  rate in \<open>rs\<close>, in sorted order: a symbol that is not selected has no row, and a selected
  symbol without a rate has none either. When no selected symbol has a rate, the handler
  returns the page with no rows and no message.\<close>

theorem results_are_selected_with_rate:
  assumes "non_negative_decimal (submitted_price f)"
    and "fetch_usd_exchange_rates now net w = (Inr rs, w1)"
  shows "(fst (index now net (POST f) w) = Inr pg \<longrightarrow>
            error pg = None \<and> selected_symbols pg = selected_of f \<and>
            map symbol (results pg) = sort (filter (\<lambda>s. rs s \<noteq> None) (selected_of f)) \<and>
            symbol ` set (results pg) = set (selected_of f) \<inter> dom rs) \<and>
         ((\<forall>s \<in> set (selected_of f). rs s = None) \<longrightarrow>
            (\<exists>pg. fst (index now net (POST f) w) = Inr pg \<and> error pg = None \<and> results pg = []))"
proof -
  from assms(1) obtain usd_price where p: "valid_price (submitted_price f) = Inr usd_price"
    by (auto simp add: valid_price_iff)
  have a: "error pg = None \<and> selected_symbols pg = selected_of f \<and>
      map symbol (results pg) = sort (filter (\<lambda>s. rs s \<noteq> None) (selected_of f))"
    if "fst (index now net (POST f) w) = Inr pg"
  proof (cases "build_results usd_price rs (selected_of f) []")
    case (Inl e)
    with that p assms(2) show ?thesis
      by (simp add: index_POST)
  next
    case (Inr rows)
    with that p assms(2) have
      "pg = render None (sort_key symbol rows)
         (strip (case item_field f of None \<Rightarrow> [] | Some s \<Rightarrow> s)) (submitted_price f) (selected_of f)"
      by (simp add: index_POST)
    with build_results_symbols [OF Inr] show ?thesis
      by (simp add: render_def sort_key_map)
  qed
  have b: "symbol ` set (results pg) = set (selected_of f) \<inter> dom rs"
    if "fst (index now net (POST f) w) = Inr pg"
  proof -
    from a [OF that] have "set (map symbol (results pg)) =
        set (sort (filter (\<lambda>s. rs s \<noteq> None) (selected_of f)))"
      by simp
    then show ?thesis
      by (auto simp add: dom_def)
  qed
  have c: "\<exists>pg. fst (index now net (POST f) w) = Inr pg \<and> error pg = None \<and> results pg = []"
    if "\<forall>s \<in> set (selected_of f). rs s = None"
    using that p assms(2)
    by (simp add: index_POST build_results_absent render_def)
  from a b c show ?thesis
    by blast
qed

theorem results_are_selected_with_rate_witness:
  "non_negative_decimal (submitted_price (example_form ''129.99'')) \<and>
   fetch_usd_exchange_rates 1000 example_net fresh_world = (Inr example_rates, example_world) \<and>
   fst (index 1000 example_net (POST (example_form ''129.99'')) fresh_world) = Inr example_page \<and>
   map symbol (results example_page) =
     sort (filter (\<lambda>s. example_rates s \<noteq> None) (selected_of (example_form ''129.99'')))"
  using results_are_selected_with_rate [of "example_form ''129.99''" 1000 example_net fresh_world
      example_rates example_world example_page]
    example_price_accepted example_fetch example_index_page
  by (simp add: example_request_def)

section \<open>Digits\<close>

lemma digit_char_digit: "d < 10 \<Longrightarrow> is_digit (digit_char d) \<and> digit_val (digit_char d) = d"
  by (auto simp add: eval_nat_numeral less_Suc_eq digit_char_def is_digit_def digit_val_def)

lemma digits_of_nat_digits: "list_all is_digit (digits_of_nat n)"
proof (induction n rule: digits_of_nat.induct)
  case (1 n)
  show ?case
  proof (cases "n < 10")
    case True
    then show ?thesis
      by (simp add: digits_of_nat.simps [of n] digit_char_digit)
  next
    case False
    with 1 show ?thesis
      by (simp add: digits_of_nat.simps [of n] digit_char_digit)
  qed
qed

lemma digits_of_nat_nonempty: "digits_of_nat n \<noteq> []"
  by (simp add: digits_of_nat.simps [of n])

lemma nat_of_digits_snoc: "nat_of_digits (ds @ [c]) = 10 * nat_of_digits ds + digit_val c"
  by (simp add: nat_of_digits_def)

lemma nat_of_digits_inverse: "nat_of_digits (digits_of_nat n) = n"
proof (induction n rule: digits_of_nat.induct)
  case (1 n)
  show ?case
  proof (cases "n < 10")
    case True
    then show ?thesis
      by (simp add: digits_of_nat.simps [of n] nat_of_digits_def digit_char_digit)
  next
    case False
    with 1 show ?thesis
      by (simp add: digits_of_nat.simps [of n] nat_of_digits_snoc digit_char_digit)
  qed
qed

lemma nat_of_digits_zeros: "nat_of_digits (replicate k CHR ''0'' @ ds) = nat_of_digits ds"
  by (induction k) (simp_all add: nat_of_digits_def digit_val_def)

lemma ndigits_simps:
  "ndigits n = (if n < 10 then 1 else ndigits (n div 10) + 1)"
  by (simp add: ndigits_def digits_of_nat.simps [of n])

lemma ndigits_upper: "0 < k \<Longrightarrow> c < 10 ^ k \<Longrightarrow> ndigits c \<le> k"
proof (induction c arbitrary: k rule: digits_of_nat.induct)
  case (1 n)
  show ?case
  proof (cases "n < 10")
    case True
    with 1(2) show ?thesis
      by (simp add: ndigits_simps [of n])
  next
    case False
    with 1(3) have "1 < k"
      by (cases "k = 1") (use 1(2) in auto)
    then obtain j where k: "k = Suc j" and j: "0 < j"
      by (cases k) auto
    with 1(3) have "n div 10 < 10 ^ j"
      by (simp add: less_mult_imp_div_less mult.commute)
    with 1(1) [OF False j] False k show ?thesis
      by (simp add: ndigits_simps [of n])
  qed
qed

lemma ndigits_less: "c < 10 ^ ndigits c"
proof (induction c rule: digits_of_nat.induct)
  case (1 n)
  show ?case
  proof (cases "n < 10")
    case True
    then show ?thesis
      by (simp add: ndigits_simps [of n])
  next
    case False
    with 1 have "n div 10 < 10 ^ ndigits (n div 10)"
      by simp
    then have "n < 10 * 10 ^ ndigits (n div 10)"
      by (simp add: div_less_iff_less_mult mult.commute)
    with False show ?thesis
      by (simp add: ndigits_simps [of n])
  qed
qed

lemma ndigits_positive: "0 < ndigits c"
  by (simp add: ndigits_simps [of c])

lemma ndigits_shift: "ndigits (c * 10 ^ k) \<le> ndigits c + k"
proof (rule ndigits_upper)
  show "0 < ndigits c + k"
    by (simp add: ndigits_positive)
  show "c * 10 ^ k < 10 ^ (ndigits c + k)"
    by (simp add: power_add ndigits_less)
qed

lemma ndigits_drop: "ndigits (c div 10 ^ k) \<le> max 1 (ndigits c - k)"
proof (cases "k < ndigits c")
  case True
  have "c < 10 ^ (k + (ndigits c - k))"
    using True ndigits_less [of c] by simp
  then have "c div 10 ^ k < 10 ^ (ndigits c - k)"
    by (simp add: power_add less_mult_imp_div_less mult.commute)
  with True have "ndigits (c div 10 ^ k) \<le> ndigits c - k"
    by (intro ndigits_upper) simp_all
  then show ?thesis
    by simp
next
  case False
  then have "(10::nat) ^ ndigits c \<le> 10 ^ k"
    by (intro power_increasing) simp_all
  with ndigits_less [of c] have "c < 10 ^ k"
    by (rule less_le_trans)
  then have "c div 10 ^ k = 0"
    by simp
  then show ?thesis
    by (simp add: ndigits_simps [of 0])
qed

lemma dec_fix_zero: "Etiny \<le> e \<Longrightarrow> e \<le> Emax \<Longrightarrow> dec_fix (Finite s 0 e) = Inr (Finite s 0 e)"
  by (simp add: dec_fix_def)

lemma dec_fix_exact:
  "ndigits c \<le> prec \<Longrightarrow> Etiny \<le> e \<Longrightarrow> e \<le> 0 \<Longrightarrow> dec_fix (Finite s c e) = Inr (Finite s c e)"
  by (auto simp add: dec_fix_def Let_def ctx_defs)

lemma quantize_down_finite:
  assumes p: "p \<le> 8"
  shows "quantize_down (Finite sg c e) (quant_of p) =
     (if c = 0 then Inr (Finite sg 0 (- int p))
      else if 28 < int (ndigits c) + e + int p then Inl InvalidOperation
      else Inr (Finite sg
             (if - int p \<le> e then c * 10 ^ nat (e + int p) else c div 10 ^ nat (- int p - e))
             (- int p)))"
proof (cases "c = 0")
  case True
  with p show ?thesis
    by (simp add: quantize_down_def quant_of_def check_nans_def dec_fix_zero ctx_defs)
next
  case c: False
  show ?thesis
  proof (cases "28 < int (ndigits c) + e + int p")
    case True
    with c p show ?thesis
      by (simp add: quantize_down_def quant_of_def check_nans_def ctx_defs)
  next
    case fits: False
    define c' where
      "c' = (if - int p \<le> e then c * 10 ^ nat (e + int p) else c div 10 ^ nat (- int p - e))"
    have ans: "rescale_down (Finite sg c e) (- int p) = Finite sg c' (- int p)"
      using c by (simp add: c'_def)
    have len: "ndigits c' \<le> prec"
    proof (cases "- int p \<le> e")
      case True
      with fits ndigits_shift [of c "nat (e + int p)"] show ?thesis
        by (simp add: c'_def prec_def)
    next
      case False
      with fits ndigits_drop [of c "nat (- int p - e)"] show ?thesis
        by (simp add: c'_def prec_def)
    qed
    with p have "dec_fix (Finite sg c' (- int p)) = Inr (Finite sg c' (- int p))"
      by (intro dec_fix_exact) (simp_all add: ctx_defs)
    with c fits p len ans have
      "quantize_down (Finite sg c e) (quant_of p) = Inr (Finite sg c' (- int p))"
      by (simp add: quantize_down_def quant_of_def check_nans_def ctx_defs del: rescale_down.simps)
    with c fits show ?thesis
      by (simp add: c'_def)
  qed
qed

lemma format_f_fixed:
  assumes p: "0 < p"
  shows "\<exists>ip fp. format_f (Finite sg c (- int p)) = (if sg then ''-'' else '''') @ ip @ ''.'' @ fp \<and>
      ip \<noteq> [] \<and> list_all is_digit ip \<and> list_all is_digit fp \<and> length fp = p \<and>
      nat_of_digits (ip @ fp) = c"
proof -
  define ds where "ds = digits_of_nat c"
  have ds: "list_all is_digit ds" "ds \<noteq> []" "nat_of_digits ds = c"
    by (simp_all add: ds_def digits_of_nat_digits digits_of_nat_nonempty nat_of_digits_inverse)
  have zero: "is_digit CHR ''0''"
    by (simp add: is_digit_def)
  consider (short) "length ds < p" | (exact) "length ds = p" | (long) "p < length ds"
    by linarith
  then show ?thesis
  proof cases
    case short
    then have "format_f (Finite sg c (- int p)) =
        (if sg then ''-'' else '''') @ ''0'' @ ''.'' @ (replicate (p - length ds) CHR ''0'' @ ds)"
      using ds(2) by (simp add: format_f_def Let_def ds_def [symmetric] nat_diff_distrib)
    moreover have "nat_of_digits (''0'' @ replicate (p - length ds) CHR ''0'' @ ds) = c"
      using nat_of_digits_zeros [of "Suc (p - length ds)" ds] ds(3) by simp
    moreover have "list_all is_digit (replicate (p - length ds) CHR ''0'' @ ds)"
      using ds(1) zero by (auto simp add: list_all_iff)
    ultimately show ?thesis
      using short zero
      by - (rule exI [of _ "''0''"], rule exI [of _ "replicate (p - length ds) CHR ''0'' @ ds"], simp)
  next
    case exact
    then have "format_f (Finite sg c (- int p)) = (if sg then ''-'' else '''') @ ''0'' @ ''.'' @ ds"
      using ds(2) by (simp add: format_f_def Let_def ds_def [symmetric])
    moreover have "nat_of_digits (''0'' @ ds) = c"
      using nat_of_digits_zeros [of 1 ds] ds(3) by simp
    ultimately show ?thesis
      using exact zero ds(1)
      by - (rule exI [of _ "''0''"], rule exI [of _ ds], simp)
  next
    case long
    then have "format_f (Finite sg c (- int p)) =
        (if sg then ''-'' else '''') @ take (length ds - p) ds @ ''.'' @ drop (length ds - p) ds"
      using p ds(2) by (auto simp add: format_f_def Let_def ds_def [symmetric] nat_diff_distrib)
    moreover have "list_all is_digit (take (length ds - p) ds)"
      "list_all is_digit (drop (length ds - p) ds)"
      using ds(1) by (auto simp add: list_all_iff dest: in_set_takeD in_set_dropD)
    ultimately show ?thesis
      using long p ds(2,3)
      by - (rule exI [of _ "take (length ds - p) ds"], rule exI [of _ "drop (length ds - p) ds"], simp)
  qed
qed

section \<open>The text of an amount\<close>

lemma shift_value:
  assumes "- int p \<le> e"
  shows "real (c * 10 ^ nat (e + int p)) / 10 ^ p = real c * power_int 10 e"
proof -
  have "e = int (nat (e + int p)) - int p"
    using assms by simp
  then have "power_int (10::real) e = 10 ^ nat (e + int p) / 10 ^ p"
    by (metis power_int_diff power_int_of_nat zero_neq_numeral)
  then show ?thesis
    by simp
qed

lemma drop_value:
  assumes "e < - int p"
  shows "real (c div 10 ^ nat (- int p - e)) / 10 ^ p \<le> real c * power_int 10 e"
    and "real c * power_int 10 e < real (c div 10 ^ nat (- int p - e)) / 10 ^ p + 1 / 10 ^ p"
proof -
  define k where "k = nat (- int p - e)"
  have "e = - int (k + p)"
    using assms by (simp add: k_def)
  then have "power_int (10::real) e = inverse (10 ^ (k + p))"
    by (simp only: power_int_minus power_int_of_nat)
  then have e: "power_int (10::real) e = 1 / (10 ^ k * 10 ^ p)"
    by (simp add: power_add divide_inverse)
  have "c div 10 ^ k * 10 ^ k \<le> c"
    by simp
  then have "real (c div 10 ^ k * 10 ^ k) \<le> real c"
    by (rule of_nat_mono)
  then have le: "real (c div 10 ^ k) * 10 ^ k \<le> real c"
    by simp
  have "c < 10 ^ k + c div 10 ^ k * 10 ^ k"
    by (rule dividend_less_div_times) simp
  then have "real c < real (10 ^ k + c div 10 ^ k * 10 ^ k)"
    by (simp only: of_nat_less_iff)
  then have less: "real c < (real (c div 10 ^ k) + 1) * 10 ^ k"
    by (simp add: algebra_simps)
  from le show "real (c div 10 ^ nat (- int p - e)) / 10 ^ p \<le> real c * power_int 10 e"
    unfolding k_def [symmetric] e by (simp add: field_simps)
  from less show "real c * power_int 10 e < real (c div 10 ^ nat (- int p - e)) / 10 ^ p + 1 / 10 ^ p"
    unfolding k_def [symmetric] e by (simp add: field_simps)
qed

lemma digit_not_point: "is_digit x \<Longrightarrow> x \<noteq> CHR ''.'' \<and> x \<noteq> CHR ''-'' \<and> x \<noteq> CHR ''+''"
  by (auto simp add: is_digit_def)

lemma digits_after_point_fixed:
  assumes "list_all is_digit ip" and "list_all is_digit fp"
  shows "digits_after_point ((if sg then ''-'' else '''') @ ip @ ''.'' @ fp) = Some (length fp)"
proof -
  have "\<forall>x \<in> set ((if sg then ''-'' else '''') @ ip). x \<noteq> CHR ''.''"
    using assms(1) by (auto simp add: list_all_iff dest: digit_not_point)
  then have "dropWhile (\<lambda>c. c \<noteq> CHR ''.'') (((if sg then ''-'' else '''') @ ip) @ ''.'' @ fp)
      = ''.'' @ fp"
    by (subst dropWhile_append2) simp_all
  with assms(2) show ?thesis
    by (simp add: digits_after_point_def)
qed

lemma denoted_value_fixed:
  assumes "list_all is_digit ip" and "ip \<noteq> []"
  shows "denoted_value ((if sg then ''-'' else '''') @ ip @ ''.'' @ fp) =
     (if sg then - 1 else 1) * (real (nat_of_digits (ip @ fp)) / 10 ^ length fp)"
proof -
  from assms obtain x xs where ip: "ip = x # xs" and x: "is_digit x"
    by (cases ip) auto
  have sign: "split_sign ((if sg then ''-'' else '''') @ ip @ ''.'' @ fp) = (sg, ip @ ''.'' @ fp)"
    using digit_not_point [OF x] by (simp add: split_sign_def ip)
  have no_point: "\<forall>c \<in> set ip. c \<noteq> CHR ''.''"
    using assms(1) by (auto simp add: list_all_iff dest: digit_not_point)
  then have "takeWhile (\<lambda>c. c \<noteq> CHR ''.'') (ip @ ''.'' @ fp) = ip"
    by (subst takeWhile_append2) simp_all
  moreover from no_point have "dropWhile (\<lambda>c. c \<noteq> CHR ''.'') (ip @ ''.'' @ fp) = ''.'' @ fp"
    by (subst dropWhile_append2) simp_all
  ultimately show ?thesis
    unfolding denoted_value_def sign by (simp add: Let_def)
qed

lemma precision_of_range: "0 < precision_of x \<and> precision_of x \<le> 8"
  by (simp add: precision_of_def)

lemma format_finite:
  "format_crypto_amount s (Finite sg c e) =
     (if c \<noteq> 0 \<and> 28 < int (ndigits c) + e + int (precision_of (upper s))
      then Inl InvalidOperation
      else Inr (format_f (Finite sg
        (if - int (precision_of (upper s)) \<le> e
         then c * 10 ^ nat (e + int (precision_of (upper s)))
         else c div 10 ^ nat (- int (precision_of (upper s)) - e))
        (- int (precision_of (upper s))))))"
  using precision_of_range [of "upper s"]
  by (simp add: format_crypto_amount_def Let_def quantize_down_finite)

lemma btc_truncated:
  "format_crypto_amount ''BTC'' (Finite False 123456789 (- 9)) = Inr ''0.12345678''"
  by (simp add: fmt_defs)

lemma amount_parsed: "decimal_of_string ''0.123456789'' = Inr (Finite False 123456789 (- 9))"
  by (simp add: parse_defs)

text \<open>C1, as the code has it: for a finite amount \<open>\<plusminus> c \<cdot> 10\<^sup>e\<close> that is zero, or whose digits
  before the point together with the digits of the precision are at most the 28 digits of the
  context, \<^const>\<open>format_crypto_amount\<close> returns a text with exactly 2 digits after the point
  for \<^verbatim>\<open>USDC\<close> and \<^verbatim>\<open>USDT\<close>, 4 for \<^verbatim>\<open>XRP\<close>, \<^verbatim>\<open>ADA\<close>, \<^verbatim>\<open>DOGE\<close>, \<^verbatim>\<open>SOL\<close> and \<^verbatim>\<open>LTC\<close>, and 8 for
  every other symbol, the symbol being taken in upper case.\<close>

theorem format_fraction_digits:
  assumes "c = 0 \<or> int (ndigits c) + e + int (precision_of (upper s)) \<le> 28"
  shows "\<exists>text. format_crypto_amount s (Finite sg c e) = Inr text \<and>
      digits_after_point text =
        Some (if upper s \<in> {''USDC'', ''USDT''} then 2
              else if upper s \<in> {''XRP'', ''ADA'', ''DOGE'', ''SOL'', ''LTC''} then 4
              else 8)"
proof -
  define p where "p = precision_of (upper s)"
  define c' where
    "c' = (if - int p \<le> e then c * 10 ^ nat (e + int p) else c div 10 ^ nat (- int p - e))"
  have p: "0 < p"
    using precision_of_range [of "upper s"] by (simp add: p_def)
  from assms have out: "format_crypto_amount s (Finite sg c e) = Inr (format_f (Finite sg c' (- int p)))"
    by (auto simp add: format_finite p_def c'_def)
  from format_f_fixed [OF p, of sg c'] obtain ip fp where
    "format_f (Finite sg c' (- int p)) = (if sg then ''-'' else '''') @ ip @ ''.'' @ fp"
    "list_all is_digit ip" "list_all is_digit fp" "length fp = p"
    by blast
  then have "digits_after_point (format_f (Finite sg c' (- int p))) = Some p"
    using digits_after_point_fixed [of ip fp sg] by simp
  with out show ?thesis
    by (simp add: p_def precision_of_def)
qed

theorem format_fraction_digits_witness:
  "\<exists>text. format_crypto_amount ''usdc'' (Finite False 1300068987 (- 7)) = Inr text \<and>
      digits_after_point text = Some 2"
  using format_fraction_digits [of 1300068987 "- 7" "''usdc''" False]
  by (simp add: precision_of_def ndigits_def str_defs)

text \<open>C1, as the specification states it, for every amount, does not hold: an amount of 31
  digits before the point cannot be given two decimal places in the 28 digits of the
  context, and the formatter raises; the amount \<^verbatim>\<open>NaN\<close> is formatted as the text \<^verbatim>\<open>NaN\<close>, which
  has no decimal point.\<close>

theorem format_without_fraction_digits:
  "format_crypto_amount ''USDC'' (Finite False 2 30) = Inl InvalidOperation \<and>
   format_crypto_amount ''USDC'' (QNaN False 0) = Inr ''NaN'' \<and>
   digits_after_point ''NaN'' = None"
  by (simp add: fmt_defs digits_after_point_def)

text \<open>C2: for a finite amount that is not below zero, the number denoted by the text that
  \<^const>\<open>format_crypto_amount\<close> returns is at most the amount, and less than one unit of the
  last decimal place below it: the digits beyond the precision are cut off. In particular the
  amount \<^verbatim>\<open>0.123456789\<close> is formatted for \<^verbatim>\<open>BTC\<close> as \<^verbatim>\<open>0.12345678\<close>.\<close>

theorem format_never_rounds_up:
  "((sg \<longrightarrow> c = 0) \<and> format_crypto_amount s (Finite sg c e) = Inr text \<longrightarrow>
      denoted_value text \<le> dec_value (Finite sg c e) \<and>
      dec_value (Finite sg c e) < denoted_value text + 1 / 10 ^ precision_of (upper s)) \<and>
   decimal_of_string ''0.123456789'' = Inr (Finite False 123456789 (- 9)) \<and>
   format_crypto_amount ''BTC'' (Finite False 123456789 (- 9)) = Inr ''0.12345678''"
proof (intro conjI impI)
  assume a: "(sg \<longrightarrow> c = 0) \<and> format_crypto_amount s (Finite sg c e) = Inr text"
  define p where "p = precision_of (upper s)"
  define c' where
    "c' = (if - int p \<le> e then c * 10 ^ nat (e + int p) else c div 10 ^ nat (- int p - e))"
  have p: "0 < p"
    using precision_of_range [of "upper s"] by (simp add: p_def)
  from a have out: "text = format_f (Finite sg c' (- int p))"
    by (auto simp add: format_finite p_def c'_def split: if_splits)
  from format_f_fixed [OF p, of sg c'] obtain ip fp where
    "format_f (Finite sg c' (- int p)) = (if sg then ''-'' else '''') @ ip @ ''.'' @ fp"
    "ip \<noteq> []" "list_all is_digit ip" "length fp = p" "nat_of_digits (ip @ fp) = c'"
    by blast
  with out have v: "denoted_value text = (if sg then - 1 else 1) * (real c' / 10 ^ p)"
    using denoted_value_fixed [of ip sg fp] by simp
  have bounds: "denoted_value text \<le> dec_value (Finite sg c e) \<and>
      dec_value (Finite sg c e) < denoted_value text + 1 / 10 ^ p"
  proof (cases sg)
    case True
    with a have "c = 0" and "c' = 0"
      by (simp_all add: c'_def)
    with True v show ?thesis
      by (simp add: dec_value_def)
  next
    case False
    show ?thesis
    proof (cases "- int p \<le> e")
      case True
      with shift_value [OF True, of c] False v show ?thesis
        by (simp add: dec_value_def c'_def)
    next
      case drop: False
      then have "e < - int p"
        by simp
      from drop_value [OF this, of c] False drop v show ?thesis
        by (simp add: dec_value_def c'_def)
    qed
  qed
  then show "denoted_value text \<le> dec_value (Finite sg c e)"
    and "dec_value (Finite sg c e) < denoted_value text + 1 / 10 ^ precision_of (upper s)"
    by (simp_all add: p_def)
next
  show "decimal_of_string ''0.123456789'' = Inr (Finite False 123456789 (- 9))"
    by (rule amount_parsed)
  show "format_crypto_amount ''BTC'' (Finite False 123456789 (- 9)) = Inr ''0.12345678''"
    by (rule btc_truncated)
qed

theorem format_never_rounds_up_witness:
  "format_crypto_amount ''BTC'' (Finite False 123456789 (- 9)) = Inr ''0.12345678'' \<and>
   denoted_value ''0.12345678'' \<le> dec_value (Finite False 123456789 (- 9)) \<and>
   dec_value (Finite False 123456789 (- 9)) < denoted_value ''0.12345678'' + 1 / 10 ^ 8"
  using format_never_rounds_up [of False 123456789 "''BTC''" "- 9" "''0.12345678''"] btc_truncated
  by (simp add: precision_of_def str_defs)

end
